theory Spec2Isabelle
  imports Main
begin

section \<open>Values, strings and exceptions of the host language\<close>

text \<open>
  The values a decoded token can hold. \<open>jwt.verify\<close> returns either a string or a payload
  object; the fields of a payload are arbitrary JSON values. An array is an object whose
  keys are its indices and \<open>length\<close>, so it is a \<open>JObj\<close> here. Numbers are only ever
  compared with string literals by the code below, so integers stand for them.
\<close>

datatype jsval =
    JUndefined
  | JNull
  | JBool bool
  | JNum int
  | JStr string
  | JObj "(string \<times> jsval) list"

text \<open>The \<open>typeof\<close> operator.\<close>

fun typeof :: "jsval \<Rightarrow> string" where
  "typeof JUndefined = ''undefined''"
| "typeof JNull = ''object''"
| "typeof (JBool b) = ''boolean''"
| "typeof (JNum n) = ''number''"
| "typeof (JStr s) = ''string''"
| "typeof (JObj kvs) = ''object''"

text \<open>
  \<open>k in v\<close> and \<open>v.k\<close> on an object. The source guards both with the \<open>typeof\<close> and
  null tests, so they are only evaluated on a \<open>JObj\<close>.
\<close>

fun has_property :: "string \<Rightarrow> jsval \<Rightarrow> bool" where
  "has_property k (JObj kvs) = (k \<in> fst ` set kvs)"
| "has_property k v = False"

fun get_property :: "jsval \<Rightarrow> string \<Rightarrow> jsval" where
  "get_property (JObj kvs) k = (case map_of kvs k of Some v \<Rightarrow> v | None \<Rightarrow> JUndefined)"
| "get_property v k = JUndefined"

text \<open>\<open>s.startsWith(p)\<close>.\<close>

definition startsWith :: "string \<Rightarrow> string \<Rightarrow> bool" where
  "startsWith s p = (take (length p) s = p)"

text \<open>
  \<open>s.split(sep)\<close> for a one-character separator: every occurrence of the separator ends a
  part, so two separators in a row give an empty part, and the empty string gives one
  empty part.
\<close>

fun split :: "char \<Rightarrow> string \<Rightarrow> string list" where
  "split sep [] = [[]]"
| "split sep (c # cs) =
     (if c = sep then [] # split sep cs
      else (case split sep cs of
              [] \<Rightarrow> [[c]]
            | w # ws \<Rightarrow> (c # w) # ws))"

text \<open>\<open>xs[i]\<close> on an array: \<open>undefined\<close> (here \<open>None\<close>) out of range.\<close>

definition at_index :: "'a list \<Rightarrow> nat \<Rightarrow> 'a option" where
  "at_index xs i = (if i < length xs then Some (xs ! i) else None)"

text \<open>A thrown exception: the name of its class and its message.\<close>

datatype exn = Exn (exn_name: string) (exn_message: string)

abbreviation Error :: "string \<Rightarrow> exn" where
  "Error m \<equiv> Exn ''Error'' m"

text \<open>\<open>try { body } catch (error) { handler }\<close>.\<close>

definition try_catch :: "(exn + 'a) \<Rightarrow> (exn \<Rightarrow> exn + 'a) \<Rightarrow> exn + 'a" where
  "try_catch body handler = (case body of Inl error \<Rightarrow> handler error | Inr v \<Rightarrow> Inr v)"

section \<open>The role middleware \<open>checkRoles\<close> (5.Auth-Roles/src/middleware/bearAuth.ts)\<close>

text \<open>
  What the middleware does to its request, response and continuation, in the order it
  does it: \<open>(req as any).user = decoded\<close>, \<open>res.status(code).json({ message })\<close>, and
  \<open>next()\<close>. The three are taken not to throw: Express runs the next handler inside its
  own \<open>try\<close> and routes what it throws to the error handler.
\<close>

datatype effect =
    SetUser jsval
  | Respond nat string
  | Next

text \<open>
  \<open>jwt.verify(token, secret)\<close> belongs to the jsonwebtoken library and is a parameter of the
  model: it gets the token and the secret, either of which may be \<open>undefined\<close>, and either
  throws or returns the decoded payload.
\<close>

type_synonym verify_fn = "string option \<Rightarrow> string option \<Rightarrow> exn + jsval"

text \<open>The token the middleware extracts: \<open>authHeader.split(' ')[1]\<close>.\<close>

definition header_token :: "string \<Rightarrow> string option" where
  "header_token authHeader = at_index (split CHR '' '' authHeader) 1"

text \<open>
  \<open>checkRoles(requiredRole)(req, res, next)\<close>. \<open>JWT_SECRET\<close> is \<open>process.env.JWT_SECRET\<close>,
  \<open>authHeader\<close> is \<open>req.headers.authorization\<close>. The result is \<open>Inl\<close> when an exception
  leaves the middleware and \<open>Inr\<close> of its effects otherwise.
\<close>

definition checkRoles ::
  "verify_fn \<Rightarrow> string option \<Rightarrow> string \<Rightarrow> string option \<Rightarrow> exn + effect list" where
  "checkRoles verify JWT_SECRET requiredRole authHeader =
     (case authHeader of
        None \<Rightarrow> Inr [Respond 401 ''Unauthorized'']
      | Some h \<Rightarrow>
          if h = [] \<or> \<not> startsWith h ''Bearer '' then Inr [Respond 401 ''Unauthorized'']
          else
            let token = header_token h in
            try_catch
              (case verify token JWT_SECRET of
                 Inl error \<Rightarrow> Inl error
               | Inr decoded \<Rightarrow>
                   Inr (SetUser decoded #
                     (if typeof decoded = ''object'' \<and> decoded \<noteq> JNull
                         \<and> has_property ''role'' decoded
                      then
                        (if requiredRole = ''both'' then
                           (if get_property decoded ''role'' = JStr ''admin''
                               \<or> get_property decoded ''role'' = JStr ''user''
                            then [Next]
                            else [Respond 401 ''Unauthorized''])
                         else if get_property decoded ''role'' = JStr requiredRole then [Next]
                         else [Respond 401 ''Unauthorized''])
                      else [Respond 401 ''Invalid Token Payload''])))
              (\<lambda>error. Inr [Respond 401 ''Invalid Token'']))"

text \<open>Observations of a run: how often \<open>next()\<close> was called and which responses were sent.\<close>

definition next_calls :: "effect list \<Rightarrow> nat" where
  "next_calls effs = length (filter (\<lambda>e. e = Next) effs)"

fun responses :: "effect list \<Rightarrow> (nat \<times> string) list" where
  "responses [] = []"
| "responses (Respond code msg # effs) = (code, msg) # responses effs"
| "responses (e # effs) = responses effs"

text \<open>The request proceeds: the middleware returned and called \<open>next()\<close>.\<close>

fun proceeds :: "exn + effect list \<Rightarrow> bool" where
  "proceeds (Inr effs) = (Next \<in> set effs)"
| "proceeds (Inl e) = False"

text \<open>
  The form the specification asks of a header: the scheme \<open>Bearer\<close>, one space, and one
  non-empty token part without a further space.
\<close>

definition spec_bearer_form :: "string \<Rightarrow> bool" where
  "spec_bearer_form h =
     (startsWith h ''Bearer '' \<and> drop 7 h \<noteq> [] \<and> CHR '' '' \<notin> set (drop 7 h))"

text \<open>
  A verification function for the worked examples: under the secret \<open>s3cret\<close> it accepts
  the tokens of a small table, and it throws on everything else, with the exceptions
  \<open>jwt.verify\<close> throws for an expired token and for a bad signature.
\<close>

definition sample_verify :: verify_fn where
  "sample_verify token secret =
     (if secret \<noteq> Some ''s3cret'' then Inl (Exn ''JsonWebTokenError'' ''invalid signature'')
      else if token = Some ''admin.jwt'' then
        Inr (JObj [(''sub'', JNum 1), (''role'', JStr ''admin''), (''exp'', JNum 1700003600)])
      else if token = Some ''user.jwt'' then
        Inr (JObj [(''sub'', JNum 2), (''role'', JStr ''user''), (''exp'', JNum 1700003600)])
      else if token = Some ''norole.jwt'' then
        Inr (JObj [(''sub'', JNum 3), (''exp'', JNum 1700003600)])
      else if token = Some ''text.jwt'' then Inr (JStr ''hello'')
      else if token = Some ''expired.jwt'' then Inl (Exn ''TokenExpiredError'' ''jwt expired'')
      else Inl (Exn ''JsonWebTokenError'' ''jwt malformed''))"

section \<open>Token verification\<close>

text \<open>
  Modelled from the spec: the expiry test of \<open>jwt.verify\<close> (jsonwebtoken library, whose
  code is not among the sources). The payload field \<open>exp\<close> is in seconds since the epoch
  and a token lives exactly one hour from issuance, so it is expired from the second of
  its \<open>exp\<close> on. \<open>clock\<close> is the time of the call, in seconds.
\<close>

definition expired :: "int \<Rightarrow> jsval \<Rightarrow> bool" where
  "expired clock payload =
     (case get_property payload ''exp'' of JNum e \<Rightarrow> e \<le> clock | _ \<Rightarrow> False)"

text \<open>
  Modelled from the spec: \<open>jwt.verify(token, secret)\<close> (jsonwebtoken library, whose code
  is not among the sources). It verifies the signature and the expiry of the token and
  fails if the token is invalid or expired; otherwise it returns the decoded payload.
  \<open>decode\<close> reads the payload of a token, \<open>None\<close> for a malformed one, and
  \<open>signature_valid\<close> is the cryptographic check of a token against a secret; without a
  token or without a secret there is nothing to check and the call fails.
\<close>

definition jwt_verify ::
  "(string \<Rightarrow> jsval option) \<Rightarrow> (string \<Rightarrow> string \<Rightarrow> bool) \<Rightarrow> int \<Rightarrow> verify_fn" where
  "jwt_verify decode signature_valid clock token secret =
     (case token of
        None \<Rightarrow> Inl (Exn ''JsonWebTokenError'' ''jwt must be provided'')
      | Some t \<Rightarrow>
          (case secret of
             None \<Rightarrow> Inl (Exn ''JsonWebTokenError'' ''secret or public key must be provided'')
           | Some s \<Rightarrow>
               (case decode t of
                  None \<Rightarrow> Inl (Exn ''JsonWebTokenError'' ''jwt malformed'')
                | Some payload \<Rightarrow>
                    if \<not> signature_valid t s
                    then Inl (Exn ''JsonWebTokenError'' ''invalid signature'')
                    else if expired clock payload
                    then Inl (Exn ''TokenExpiredError'' ''jwt expired'')
                    else Inr payload)))"

section \<open>The Users table and its repository (8.unit-testing/src/repositories/user.repository.ts)\<close>

text \<open>
  \<open>NewUser\<close> is what registration supplies; a row of \<open>Users\<close> adds the columns the database
  fills in: \<open>userid\<close> (identity), \<open>role\<close> (default \<open>user\<close>), \<open>verification_code\<close>
  (nullable) and \<open>is_verified\<close> (default 0).
\<close>

record new_user =
  first_name :: string
  last_name :: string
  email :: string
  phone_number :: string
  password :: string

record user = new_user +
  userid :: int
  role :: string
  verification_code :: "string option"
  is_verified :: bool

text \<open>
  The table is the list of its rows. A \<open>WHERE email = @email\<close> selects by string equality,
  and an \<open>UPDATE\<close> changes every row it selects. The queries are taken to reach the
  database: the only statement that throws is an insert the table refuses.
\<close>

type_synonym users_table = "user list"

text \<open>\<open>SELECT * FROM Users WHERE email = @email\<close>, then \<open>recordset[0] || null\<close>.\<close>

definition getUserByEmail :: "users_table \<Rightarrow> string \<Rightarrow> user option" where
  "getUserByEmail db emailArg =
     (case filter (\<lambda>u. email u = emailArg) db of [] \<Rightarrow> None | u # rest \<Rightarrow> Some u)"

text \<open>\<open>UPDATE Users SET verification_code = @code, is_verified = 0 WHERE email = @email\<close>.\<close>

definition setVerificationCode :: "users_table \<Rightarrow> string \<Rightarrow> string \<Rightarrow> users_table" where
  "setVerificationCode db emailArg code =
     map (\<lambda>u. if email u = emailArg
                then u\<lparr>verification_code := Some code, is_verified := False\<rparr>
                else u) db"

text \<open>
  The repository's \<open>verifyUser\<close>:
  \<open>UPDATE Users SET is_verified = 1, verification_code = NULL WHERE email = @email\<close>.
\<close>

definition userRepositories_verifyUser :: "users_table \<Rightarrow> string \<Rightarrow> users_table" where
  "userRepositories_verifyUser db emailArg =
     map (\<lambda>u. if email u = emailArg
                then u\<lparr>is_verified := True, verification_code := None\<rparr>
                else u) db"

text \<open>
  The repository's \<open>createUser\<close>: an \<open>INSERT\<close> of the five supplied columns. The
  \<open>CREATE TABLE Users\<close> of the guides declares \<open>email VARCHAR(100) UNIQUE NOT NULL\<close>, so
  the insert throws when a row with that email exists. \<open>newid\<close> is the identity value the
  database gives the row.
\<close>

definition userRepositories_createUser ::
  "users_table \<Rightarrow> int \<Rightarrow> new_user \<Rightarrow> exn + users_table" where
  "userRepositories_createUser db newid u =
     (if email u \<in> email ` set db
      then Inl (Exn ''RequestError'' ''Violation of UNIQUE KEY constraint'')
      else Inr (db @ [\<lparr>first_name = first_name u, last_name = last_name u, email = email u,
                        phone_number = phone_number u, password = password u,
                        userid = newid, role = ''user'', verification_code = None,
                        is_verified = False\<rparr>]))"

section \<open>The mailer and the user service\<close>

text \<open>
  The body of \<open>sendEmail\<close> is one \<open>try\<close>/\<open>catch\<close> whose handler returns a string, so it
  never throws, and the service drops the string it returns. The model records the call:
  recipient, subject, and which template made the body.
\<close>

datatype mail_body = VerifyTemplate string string | VerifiedSuccessTemplate string

record world =
  Users :: users_table
  outbox :: "(string \<times> string \<times> mail_body) list"

definition sendEmail :: "world \<Rightarrow> string \<Rightarrow> string \<Rightarrow> mail_body \<Rightarrow> world" where
  "sendEmail st to subject html = st\<lparr>outbox := outbox st @ [(to, subject, html)]\<rparr>"

text \<open>
  The service's \<open>createUser\<close> (registration with a verification code). \<open>hash\<close> is
  \<open>bcrypt.hash(_, 10)\<close> and \<open>verificationCode\<close> is the string that
  \<open>Math.floor(100000 + Math.random() * 900000).toString()\<close> produced for this call. The result
  is what the call throws or returns, with the state it leaves.
\<close>

definition createUser ::
  "(string \<Rightarrow> string) \<Rightarrow> string \<Rightarrow> int \<Rightarrow> world \<Rightarrow> new_user \<Rightarrow> (exn + string) \<times> world" where
  "createUser hash verificationCode newid st u =
     (let u1 = (if password u \<noteq> [] then u\<lparr>password := hash (password u)\<rparr> else u) in
      case userRepositories_createUser (Users st) newid u1 of
        Inl error \<Rightarrow> (Inl error, st)
      | Inr db1 \<Rightarrow>
          let st1 = st\<lparr>Users := setVerificationCode db1 (email u1) verificationCode\<rparr>;
              st2 = sendEmail st1 (email u1) ''Verify your email for Todo App''
                      (VerifyTemplate (first_name u1) verificationCode)
          in (Inr ''User created successfully. Verification code sent to email'', st2))"

text \<open>
  The service's \<open>verifyUser(email, code)\<close>. \<open>user.verification_code !== code\<close> is strict
  inequality between the stored value, which may be \<open>null\<close>, and a string.
\<close>

definition verifyUser :: "world \<Rightarrow> string \<Rightarrow> string \<Rightarrow> (exn + string) \<times> world" where
  "verifyUser st emailArg code =
     (case getUserByEmail (Users st) emailArg of
        None \<Rightarrow> (Inl (Error ''User not found''), st)
      | Some u \<Rightarrow>
          if verification_code u \<noteq> Some code
          then (Inl (Error ''Invalid verification code''), st)
          else
            let st1 = st\<lparr>Users := userRepositories_verifyUser (Users st) emailArg\<rparr>;
                st2 = sendEmail st1 (email u) ''Your email has been verified - Todo App''
                        (VerifiedSuccessTemplate (first_name u))
            in (Inr ''User verified successfully'', st2))"

text \<open>
  The service's \<open>loginUser(email, password)\<close>. \<open>compare\<close> is \<open>bcrypt.compare\<close>, \<open>sign\<close> is
  \<open>jwt.sign\<close>, \<open>JWT_SECRET\<close> is \<open>process.env.JWT_SECRET\<close> and \<open>now\<close> is \<open>Date.now()\<close>, in
  milliseconds. \<open>!secret\<close> holds for \<open>undefined\<close> and for the empty string.
\<close>

definition loginUser ::
  "(string \<Rightarrow> string \<Rightarrow> bool) \<Rightarrow> (jsval \<Rightarrow> string \<Rightarrow> string) \<Rightarrow> string option \<Rightarrow> int \<Rightarrow>
   users_table \<Rightarrow> string \<Rightarrow> string \<Rightarrow> exn + jsval" where
  "loginUser compare sign JWT_SECRET now db emailArg passwordArg =
     (case getUserByEmail db emailArg of
        None \<Rightarrow> Inl (Error ''User not found'')
      | Some u \<Rightarrow>
          if \<not> compare passwordArg (password u) then Inl (Error ''Invalid credentials'')
          else
            let payload = JObj [(''sub'', JNum (userid u)),
                                (''first_name'', JStr (first_name u)),
                                (''last_name'', JStr (last_name u)),
                                (''role'', JStr (role u)),
                                (''exp'', JNum (now div 1000 + 60 * 60))]
            in (case JWT_SECRET of
                  None \<Rightarrow> Inl (Error ''JWT secret not defined'')
                | Some secret \<Rightarrow>
                    if secret = [] then Inl (Error ''JWT secret not defined'')
                    else Inr (JObj [(''message'', JStr ''Login successful''),
                                    (''token'', JStr (sign payload secret)),
                                    (''user'', JObj [(''userid'', JNum (userid u)),
                                                     (''first_name'', JStr (first_name u)),
                                                     (''last_name'', JStr (last_name u)),
                                                     (''email'', JStr (email u)),
                                                     (''phone_number'', JStr (phone_number u))])])))"

section \<open>Sequences of verification operations\<close>

text \<open>
  The operations that write \<open>is_verified\<close>: registration, the repository's
  \<open>setVerificationCode\<close> called by itself, and the service's \<open>verifyUser\<close>. Registration
  always hashes with \<open>hash\<close>.
\<close>

datatype operation =
    Register string int new_user
  | IssueCode string string
  | ConfirmCode string string

fun apply_operation :: "(string \<Rightarrow> string) \<Rightarrow> world \<Rightarrow> operation \<Rightarrow> world" where
  "apply_operation hash st (Register code newid u) = snd (createUser hash code newid st u)"
| "apply_operation hash st (IssueCode e code) =
     st\<lparr>Users := setVerificationCode (Users st) e code\<rparr>"
| "apply_operation hash st (ConfirmCode e code) = snd (verifyUser st e code)"

text \<open>The states a sequence goes through, the first one included.\<close>

fun run :: "(string \<Rightarrow> string) \<Rightarrow> world \<Rightarrow> operation list \<Rightarrow> world list" where
  "run hash st [] = [st]"
| "run hash st (op # ops) = st # run hash (apply_operation hash st op) ops"

text \<open>The flag of the record an email selects; no record counts as not verified.\<close>

definition verified :: "world \<Rightarrow> string \<Rightarrow> bool" where
  "verified st e = (case getUserByEmail (Users st) e of None \<Rightarrow> False | Some u \<Rightarrow> is_verified u)"

definition flags :: "(string \<Rightarrow> string) \<Rightarrow> world \<Rightarrow> operation list \<Rightarrow> string \<Rightarrow> bool list" where
  "flags hash st ops e = map (\<lambda>s. verified s e) (run hash st ops)"

text \<open>How often a sequence of flag values goes from false to true, and from true to false.\<close>

fun rises :: "bool list \<Rightarrow> nat" where
  "rises (a # b # bs) = (if \<not> a \<and> b then 1 else 0) + rises (b # bs)"
| "rises bs = 0"

fun falls :: "bool list \<Rightarrow> nat" where
  "falls (a # b # bs) = (if a \<and> \<not> b then 1 else 0) + falls (b # bs)"
| "falls bs = 0"

text \<open>
  No step of the sequence applies \<open>setVerificationCode\<close> by itself to a record that is
  verified at that moment.
\<close>

fun issues_to_unverified :: "(string \<Rightarrow> string) \<Rightarrow> world \<Rightarrow> operation list \<Rightarrow> bool" where
  "issues_to_unverified hash st [] = True"
| "issues_to_unverified hash st (op # ops) =
     ((case op of IssueCode e code \<Rightarrow> \<not> verified st e | _ \<Rightarrow> True)
      \<and> issues_to_unverified hash (apply_operation hash st op) ops)"

text \<open>
  A step raises the flag of \<open>e\<close> only as a \<open>verifyUser\<close> call for \<open>e\<close> that presents the code
  stored for \<open>e\<close> at that moment.
\<close>

definition rise_by_exact_code :: "(string \<Rightarrow> string) \<Rightarrow> world \<Rightarrow> operation \<Rightarrow> string \<Rightarrow> bool" where
  "rise_by_exact_code hash st op e =
     (if \<not> verified st e \<and> verified (apply_operation hash st op) e
      then (case op of
              ConfirmCode e' code \<Rightarrow>
                e' = e \<and> map_option verification_code (getUserByEmail (Users st) e) = Some (Some code)
            | _ \<Rightarrow> False)
      else True)"

fun rises_by_exact_code :: "(string \<Rightarrow> string) \<Rightarrow> world \<Rightarrow> operation list \<Rightarrow> string \<Rightarrow> bool" where
  "rises_by_exact_code hash st [] e = True"
| "rises_by_exact_code hash st (op # ops) e =
     (rise_by_exact_code hash st op e
      \<and> rises_by_exact_code hash (apply_operation hash st op) ops e)"

text \<open>
  From a state in which a code is outstanding for \<open>e\<close>: the record is not verified, a
  \<open>verifyUser\<close> call with that code succeeds, leaves the record verified with no stored
  code, and the same call made again fails with \<open>Invalid verification code\<close> and changes
  nothing.
\<close>

definition confirms_once :: "world \<Rightarrow> string \<Rightarrow> string \<Rightarrow> bool" where
  "confirms_once st1 e code =
     (let st2 = snd (verifyUser st1 e code) in
      \<not> verified st1 e
      \<and> fst (verifyUser st1 e code) = Inr ''User verified successfully''
      \<and> verified st2 e
      \<and> map_option verification_code (getUserByEmail (Users st2) e) = Some None
      \<and> verifyUser st2 e code = (Inl (Error ''Invalid verification code''), st2))"

section \<open>Data of the worked examples\<close>

text \<open>
  Stand-ins for \<open>bcrypt.hash\<close>, \<open>bcrypt.compare\<close> and \<open>jwt.sign\<close>, one stored user, one
  registration, and the state in which the stored user holds the code \<open>482913\<close>.
\<close>

definition sample_hash :: "string \<Rightarrow> string" where
  "sample_hash p = ''hash:'' @ p"

definition sample_compare :: "string \<Rightarrow> string \<Rightarrow> bool" where
  "sample_compare p h = (h = sample_hash p)"

definition sample_sign :: "jsval \<Rightarrow> string \<Rightarrow> string" where
  "sample_sign payload secret =
     (case get_property payload ''role'' of JStr r \<Rightarrow> r @ ''.jwt'' | _ \<Rightarrow> ''norole.jwt'')"

definition sample_user :: user where
  "sample_user = \<lparr>first_name = ''Ann'', last_name = ''Lee'', email = ''a@x.com'',
                   phone_number = ''0711000001'', password = ''hash:pw'',
                   userid = 1, role = ''admin'', verification_code = None,
                   is_verified = False\<rparr>"

definition sample_world :: world where
  "sample_world = \<lparr>Users = [sample_user], outbox = []\<rparr>"

definition sample_new_user :: new_user where
  "sample_new_user = \<lparr>first_name = ''Ben'', last_name = ''Kim'', email = ''b@x.com'',
                       phone_number = ''0711000002'', password = ''pw2''\<rparr>"

text \<open>
  Three tokens for the modelled verification: one good until 1700003600, one that expired
  at 1700000000, and one whose signature matches no secret.
\<close>

definition sample_decode :: "string \<Rightarrow> jsval option" where
  "sample_decode t =
     (if t = ''admin.jwt'' then
        Some (JObj [(''sub'', JNum 1), (''role'', JStr ''admin''), (''exp'', JNum 1700003600)])
      else if t = ''expired.jwt'' then
        Some (JObj [(''sub'', JNum 1), (''role'', JStr ''admin''), (''exp'', JNum 1700000000)])
      else if t = ''forged.jwt'' then
        Some (JObj [(''sub'', JNum 9), (''role'', JStr ''admin''), (''exp'', JNum 1700003600)])
      else None)"

definition sample_signature_valid :: "string \<Rightarrow> string \<Rightarrow> bool" where
  "sample_signature_valid t s = (s = ''s3cret'' \<and> t \<noteq> ''forged.jwt'')"

definition holding_482913 :: world where
  "holding_482913 =
     sample_world\<lparr>Users := setVerificationCode (Users sample_world) ''a@x.com'' ''482913''\<rparr>"

section \<open>Facts about the repository\<close>

text \<open>
  A lookup returns a row of the requested email, and the two updates keep every row's
  email, so a lookup after an update is the update of the lookup.
\<close>

lemma getUserByEmail_email: "getUserByEmail db e = Some u \<Longrightarrow> email u = e"
  unfolding getUserByEmail_def
  by (auto split: list.splits dest!: arg_cong[where f=set] simp: filter_eq_Cons_iff)

lemma getUserByEmail_map:
  assumes "\<And>u. email (f u) = email u"
  shows "getUserByEmail (map f db) e = map_option f (getUserByEmail db e)"
proof -
  have "filter (\<lambda>u. email u = e) (map f db) = map f (filter (\<lambda>u. email u = e) db)"
    by (induction db) (simp_all add: assms)
  then show ?thesis
    by (simp add: getUserByEmail_def split: list.splits)
qed

lemma getUserByEmail_setVerificationCode:
  "getUserByEmail (setVerificationCode db e code) e' =
     map_option (\<lambda>u. if email u = e then u\<lparr>verification_code := Some code, is_verified := False\<rparr> else u)
       (getUserByEmail db e')"
  unfolding setVerificationCode_def by (rule getUserByEmail_map) simp

lemma getUserByEmail_verifyUser:
  "getUserByEmail (userRepositories_verifyUser db e) e' =
     map_option (\<lambda>u. if email u = e then u\<lparr>is_verified := True, verification_code := None\<rparr> else u)
       (getUserByEmail db e')"
  unfolding userRepositories_verifyUser_def by (rule getUserByEmail_map) simp

lemma getUserByEmail_None: "getUserByEmail db e = None \<longleftrightarrow> e \<notin> email ` set db"
  unfolding getUserByEmail_def
  by (auto split: list.splits simp: filter_empty_conv filter_eq_Cons_iff)

lemma getUserByEmail_append:
  "getUserByEmail (db @ [r]) e =
     (case getUserByEmail db e of Some u \<Rightarrow> Some u | None \<Rightarrow> if email r = e then Some r else None)"
  unfolding getUserByEmail_def by (auto split: list.splits)

section \<open>Facts about the verification operations\<close>

text \<open>
  What each operation does to the flag of every email: \<open>verifyUser\<close> raises it for its
  own email when the code matches, \<open>setVerificationCode\<close> clears it for its own email, and
  registration leaves every flag as it is, since the insert fails on a known email.
\<close>

lemma verified_confirm:
  "verified (apply_operation hash st (ConfirmCode e code)) e' =
     (verified st e' \<or>
      (e' = e \<and> map_option verification_code (getUserByEmail (Users st) e) = Some (Some code)))"
proof (cases "getUserByEmail (Users st) e")
  case None
  then show ?thesis by (simp add: verifyUser_def)
next
  case (Some u)
  show ?thesis
  proof (cases "verification_code u = Some code")
    case False
    with Some show ?thesis by (simp add: verifyUser_def)
  next
    case True
    with Some show ?thesis
      by (cases "getUserByEmail (Users st) e'")
         (auto simp: verifyUser_def verified_def Let_def sendEmail_def
            getUserByEmail_verifyUser dest: getUserByEmail_email)
  qed
qed

lemma verified_issue:
  "verified (apply_operation hash st (IssueCode e code)) e' = (e' \<noteq> e \<and> verified st e')"
  by (cases "getUserByEmail (Users st) e'")
     (auto simp: verified_def getUserByEmail_setVerificationCode dest: getUserByEmail_email)

lemma verified_register:
  "verified (apply_operation hash st (Register code newid u)) e' = verified st e'"
proof -
  define u1 where "u1 = (if password u \<noteq> [] then u\<lparr>password := hash (password u)\<rparr> else u)"
  show ?thesis
  proof (cases "email u1 \<in> email ` set (Users st)")
    case True
    then show ?thesis
      by (simp add: createUser_def userRepositories_createUser_def u1_def[symmetric] Let_def)
  next
    case False
    then have none: "getUserByEmail (Users st) (email u1) = None"
      by (simp add: getUserByEmail_None)
    show ?thesis
    proof (cases "getUserByEmail (Users st) e'")
      case None
      with False show ?thesis
        by (auto simp: createUser_def userRepositories_createUser_def u1_def[symmetric] Let_def
              sendEmail_def verified_def getUserByEmail_setVerificationCode getUserByEmail_append)
    next
      case (Some r)
      then have "email r = e'" by (rule getUserByEmail_email)
      with none Some have "email r \<noteq> email u1"
        by auto
      with False Some show ?thesis
        by (auto simp: createUser_def userRepositories_createUser_def u1_def[symmetric] Let_def
              sendEmail_def verified_def getUserByEmail_setVerificationCode getUserByEmail_append)
    qed
  qed
qed

lemma verified_step_mono:
  assumes "case op of IssueCode e code \<Rightarrow> \<not> verified st e | _ \<Rightarrow> True"
    and "verified st e'"
  shows "verified (apply_operation hash st op) e'"
  using assms
  by (cases op)
     (auto simp: verified_confirm verified_issue verified_register simp del: apply_operation.simps)

lemma rise_by_exact_code_always: "rise_by_exact_code hash st op e"
  by (cases op)
     (auto simp: rise_by_exact_code_def verified_confirm verified_issue verified_register
           simp del: apply_operation.simps)

lemma rises_by_exact_code_always: "rises_by_exact_code hash st ops e"
  by (induction ops arbitrary: st) (simp_all add: rise_by_exact_code_always)

lemma flags_Nil: "flags hash st [] e = [verified st e]"
  by (simp add: flags_def)

lemma flags_Cons:
  "flags hash st (op # ops) e = verified st e # flags hash (apply_operation hash st op) ops e"
  by (simp add: flags_def)

lemma rises_flags:
  "rises (a # flags hash st ops e) =
     (if \<not> a \<and> verified st e then 1 else 0) + rises (flags hash st ops e)"
  by (cases ops) (simp_all add: flags_def)

lemma falls_flags:
  "falls (a # flags hash st ops e) =
     (if a \<and> \<not> verified st e then 1 else 0) + falls (flags hash st ops e)"
  by (cases ops) (simp_all add: flags_def)

lemma flags_monotone:
  "issues_to_unverified hash st ops \<Longrightarrow>
     falls (flags hash st ops e) = 0 \<and>
     rises (flags hash st ops e) \<le> (if verified st e then 0 else 1)"
proof (induction ops arbitrary: st)
  case Nil
  then show ?case by (simp add: flags_Nil)
next
  case (Cons op ops)
  let ?st' = "apply_operation hash st op"
  from Cons.prems have guard: "case op of IssueCode e code \<Rightarrow> \<not> verified st e | _ \<Rightarrow> True"
    and rest: "issues_to_unverified hash ?st' ops"
    by simp_all
  from Cons.IH[OF rest]
  have IH: "falls (flags hash ?st' ops e) = 0"
    "rises (flags hash ?st' ops e) \<le> (if verified ?st' e then 0 else 1)"
    by simp_all
  have mono: "verified st e \<Longrightarrow> verified ?st' e"
    using guard by (rule verified_step_mono)
  show ?case
    using IH mono by (auto simp: flags_Cons rises_flags falls_flags)
qed

lemma confirms_once_holding:
  assumes "getUserByEmail (Users st1) e = Some u"
    and "verification_code u = Some code" and "\<not> is_verified u"
  shows "confirms_once st1 e code"
proof -
  from assms(1) have "email u = e" by (rule getUserByEmail_email)
  with assms show ?thesis
    by (simp add: confirms_once_def Let_def verifyUser_def sendEmail_def verified_def
          getUserByEmail_verifyUser)
qed

lemma createUser_fresh:
  assumes "email u \<notin> email ` set (Users st)"
  shows "fst (createUser hash code newid st u)
           = Inr ''User created successfully. Verification code sent to email''"
    and "\<exists>r. getUserByEmail (Users (snd (createUser hash code newid st u))) (email u) = Some r
             \<and> verification_code r = Some code \<and> \<not> is_verified r"
proof -
  define u1 where "u1 = (if password u \<noteq> [] then u\<lparr>password := hash (password u)\<rparr> else u)"
  have e1: "email u1 = email u" by (simp add: u1_def)
  from assms have none: "getUserByEmail (Users st) (email u) = None"
    by (simp add: getUserByEmail_None)
  from assms e1 show "fst (createUser hash code newid st u)
           = Inr ''User created successfully. Verification code sent to email''"
    by (simp add: createUser_def userRepositories_createUser_def u1_def[symmetric] Let_def)
  from assms e1 none
  show "\<exists>r. getUserByEmail (Users (snd (createUser hash code newid st u))) (email u) = Some r
             \<and> verification_code r = Some code \<and> \<not> is_verified r"
    by (simp add: createUser_def userRepositories_createUser_def u1_def[symmetric] Let_def
          sendEmail_def getUserByEmail_setVerificationCode getUserByEmail_append)
qed

section \<open>Facts about the middleware\<close>

lemma startsWith_nonempty: "startsWith h ''Bearer '' \<Longrightarrow> h \<noteq> []"
  by (auto simp: startsWith_def)

text \<open>
  Past the header test the middleware is its \<open>try\<close> block, run on the token between the
  first and the second space of the header.
\<close>

lemma checkRoles_bearer:
  assumes "startsWith h ''Bearer ''"
  shows "checkRoles verify JWT_SECRET requiredRole (Some h) =
     try_catch
       (case verify (header_token h) JWT_SECRET of
          Inl error \<Rightarrow> Inl error
        | Inr decoded \<Rightarrow>
            Inr (SetUser decoded #
              (if typeof decoded = ''object'' \<and> decoded \<noteq> JNull \<and> has_property ''role'' decoded
               then
                 (if requiredRole = ''both'' then
                    (if get_property decoded ''role'' = JStr ''admin''
                        \<or> get_property decoded ''role'' = JStr ''user''
                     then [Next]
                     else [Respond 401 ''Unauthorized''])
                  else if get_property decoded ''role'' = JStr requiredRole then [Next]
                  else [Respond 401 ''Unauthorized''])
               else [Respond 401 ''Invalid Token Payload''])))
       (\<lambda>error. Inr [Respond 401 ''Invalid Token''])"
  using assms startsWith_nonempty[OF assms] by (simp add: checkRoles_def Let_def)

lemma header_token_bearer:
  "header_token (''Bearer '' @ rest) = Some (takeWhile (\<lambda>c. c \<noteq> CHR '' '') rest)"
proof -
  have "\<exists>ws. split CHR '' '' rest = takeWhile (\<lambda>c. c \<noteq> CHR '' '') rest # ws"
    by (induction rest) (auto split: list.splits)
  then show ?thesis
    by (auto simp: header_token_def at_index_def)
qed

text \<open>Whatever the verification call throws, the answer is 401 \<open>Invalid Token\<close>.\<close>

lemma checkRoles_verify_throws:
  assumes "startsWith h ''Bearer ''" and "verify (header_token h) JWT_SECRET = Inl error"
  shows "checkRoles verify JWT_SECRET requiredRole (Some h) = Inr [Respond 401 ''Invalid Token'']"
  using assms by (simp add: checkRoles_bearer try_catch_def)

text \<open>The modelled verification throws on an expired token and on a bad signature.\<close>

lemma jwt_verify_expired:
  assumes "decode t = Some payload" and "get_property payload ''exp'' = JNum e" and "e < clock"
  shows "\<exists>error. jwt_verify decode signature_valid clock (Some t) secret = Inl error"
  using assms by (simp add: jwt_verify_def expired_def split: option.splits)

lemma jwt_verify_invalid_signature:
  assumes "\<not> signature_valid t s"
  shows "\<exists>error. jwt_verify decode signature_valid clock (Some t) (Some s) = Inl error"
  using assms by (simp add: jwt_verify_def split: option.splits)

section \<open>The verification lifecycle\<close>

text \<open>
  Claim C1 says that over every sequence of \<open>setVerificationCode\<close> and \<open>verifyUser\<close>
  operations the flag rises at most once and never falls. \<open>setVerificationCode\<close> writes
  \<open>is_verified = 0\<close> whatever the flag was: issuing a second code to the verified record
  takes the flag back to false, and confirming that code raises it a second time.
\<close>

theorem reissue_counterexample:
  "flags sample_hash sample_world
     [IssueCode ''a@x.com'' ''482913'', ConfirmCode ''a@x.com'' ''482913'',
      IssueCode ''a@x.com'' ''111111'', ConfirmCode ''a@x.com'' ''111111''] ''a@x.com''
   = [False, False, True, False, True]
   \<and> rises (flags sample_hash sample_world
     [IssueCode ''a@x.com'' ''482913'', ConfirmCode ''a@x.com'' ''482913'',
      IssueCode ''a@x.com'' ''111111'', ConfirmCode ''a@x.com'' ''111111''] ''a@x.com'') = 2
   \<and> falls (flags sample_hash sample_world
     [IssueCode ''a@x.com'' ''482913'', ConfirmCode ''a@x.com'' ''482913'',
      IssueCode ''a@x.com'' ''111111'', ConfirmCode ''a@x.com'' ''111111''] ''a@x.com'') = 1"
  by (simp add: flags_def verified_def getUserByEmail_def setVerificationCode_def verifyUser_def
      userRepositories_verifyUser_def sendEmail_def sample_world_def sample_user_def Let_def)

text \<open>
  Claim C1, amended. In every sequence of registrations, \<open>setVerificationCode\<close> calls and
  \<open>verifyUser\<close> calls in which \<open>setVerificationCode\<close> is not called by itself on a
  verified record, the flag of every email never goes from true to false, goes from false
  to true at most once, and does so only in a \<open>verifyUser\<close> step for that email that
  presents exactly the stored code. Registration needs no such condition: it issues a code
  only to the row it has just inserted.
\<close>

theorem verification_flag_monotone:
  assumes "issues_to_unverified hash st ops"
  shows "falls (flags hash st ops e) = 0 \<and> rises (flags hash st ops e) \<le> 1
         \<and> rises_by_exact_code hash st ops e"
  using flags_monotone[OF assms, of e] rises_by_exact_code_always[of hash st ops e]
  by (auto split: if_splits)

theorem verification_flag_monotone_witness:
  "issues_to_unverified sample_hash sample_world
     [IssueCode ''a@x.com'' ''482913'', ConfirmCode ''a@x.com'' ''000000'',
      ConfirmCode ''a@x.com'' ''482913'', ConfirmCode ''a@x.com'' ''482913'']
   \<and> falls (flags sample_hash sample_world
     [IssueCode ''a@x.com'' ''482913'', ConfirmCode ''a@x.com'' ''000000'',
      ConfirmCode ''a@x.com'' ''482913'', ConfirmCode ''a@x.com'' ''482913''] ''a@x.com'') = 0
   \<and> rises (flags sample_hash sample_world
     [IssueCode ''a@x.com'' ''482913'', ConfirmCode ''a@x.com'' ''000000'',
      ConfirmCode ''a@x.com'' ''482913'', ConfirmCode ''a@x.com'' ''482913''] ''a@x.com'') \<le> 1
   \<and> rises_by_exact_code sample_hash sample_world
     [IssueCode ''a@x.com'' ''482913'', ConfirmCode ''a@x.com'' ''000000'',
      ConfirmCode ''a@x.com'' ''482913'', ConfirmCode ''a@x.com'' ''482913''] ''a@x.com''"
proof -
  have h: "issues_to_unverified sample_hash sample_world
     [IssueCode ''a@x.com'' ''482913'', ConfirmCode ''a@x.com'' ''000000'',
      ConfirmCode ''a@x.com'' ''482913'', ConfirmCode ''a@x.com'' ''482913'']"
    by (simp add: verified_def getUserByEmail_def setVerificationCode_def verifyUser_def
      userRepositories_verifyUser_def sendEmail_def sample_world_def sample_user_def Let_def)
  from h verification_flag_monotone[OF h, of "''a@x.com''"] show ?thesis by simp
qed

text \<open>
  Claim C7. For a record that is not verified, issuing a code and then confirming with
  that code succeeds, sets \<open>is_verified\<close> and clears the stored code; the same confirmation
  made again fails with \<open>Invalid verification code\<close>; over the three steps the flag rises
  exactly once. The same holds when the code is issued by registration of a new email.
\<close>

theorem issue_then_confirm_round_trip:
  "(\<forall>u. getUserByEmail (Users st) e = Some u \<and> \<not> is_verified u \<longrightarrow>
      confirms_once (st\<lparr>Users := setVerificationCode (Users st) e code\<rparr>) e code
      \<and> rises (flags hash st [IssueCode e code, ConfirmCode e code, ConfirmCode e code] e) = 1)
   \<and> (email n \<notin> email ` set (Users st) \<longrightarrow>
      fst (createUser hash code newid st n)
        = Inr ''User created successfully. Verification code sent to email''
      \<and> confirms_once (snd (createUser hash code newid st n)) (email n) code
      \<and> rises (flags hash st [Register code newid n, ConfirmCode (email n) code,
                               ConfirmCode (email n) code] (email n)) = 1)"
proof (intro conjI allI impI)
  fix u
  assume h: "getUserByEmail (Users st) e = Some u \<and> \<not> is_verified u"
  let ?st1 = "st\<lparr>Users := setVerificationCode (Users st) e code\<rparr>"
  from h have eu: "email u = e" by (auto dest: getUserByEmail_email)
  with h have "getUserByEmail (Users ?st1) e
                 = Some (u\<lparr>verification_code := Some code, is_verified := False\<rparr>)"
    by (simp add: getUserByEmail_setVerificationCode)
  then show c: "confirms_once ?st1 e code"
    by (rule confirms_once_holding) simp_all
  from h have "\<not> verified st e" by (simp add: verified_def)
  with c show "rises (flags hash st [IssueCode e code, ConfirmCode e code, ConfirmCode e code] e) = 1"
    by (simp add: flags_def confirms_once_def Let_def)
next
  assume f: "email n \<notin> email ` set (Users st)"
  then show "fst (createUser hash code newid st n)
        = Inr ''User created successfully. Verification code sent to email''"
    by (rule createUser_fresh)
  from createUser_fresh(2)[OF f, of hash code newid]
  obtain r where "getUserByEmail (Users (snd (createUser hash code newid st n))) (email n) = Some r"
    "verification_code r = Some code" "\<not> is_verified r"
    by blast
  then show c: "confirms_once (snd (createUser hash code newid st n)) (email n) code"
    by (rule confirms_once_holding)
  from f have "\<not> verified st (email n)"
    by (simp add: verified_def getUserByEmail_None[THEN iffD2])
  with c show "rises (flags hash st [Register code newid n, ConfirmCode (email n) code,
                               ConfirmCode (email n) code] (email n)) = 1"
    by (simp add: flags_def confirms_once_def Let_def)
qed

theorem issue_then_confirm_round_trip_witness:
  "getUserByEmail (Users sample_world) ''a@x.com'' = Some sample_user \<and> \<not> is_verified sample_user
   \<and> confirms_once (sample_world\<lparr>Users := setVerificationCode (Users sample_world) ''a@x.com'' ''482913''\<rparr>)
        ''a@x.com'' ''482913''
   \<and> rises (flags sample_hash sample_world
        [IssueCode ''a@x.com'' ''482913'', ConfirmCode ''a@x.com'' ''482913'',
         ConfirmCode ''a@x.com'' ''482913''] ''a@x.com'') = 1
   \<and> email sample_new_user \<notin> email ` set (Users sample_world)
   \<and> confirms_once (snd (createUser sample_hash ''482913'' 2 sample_world sample_new_user))
        ''b@x.com'' ''482913''"
proof -
  have h1: "getUserByEmail (Users sample_world) ''a@x.com'' = Some sample_user"
    by (simp add: getUserByEmail_def sample_world_def sample_user_def)
  have h2: "\<not> is_verified sample_user"
    by (simp add: sample_user_def)
  have h3: "email sample_new_user \<notin> email ` set (Users sample_world)"
    by (simp add: sample_new_user_def sample_world_def sample_user_def)
  have e: "email sample_new_user = ''b@x.com''"
    by (simp add: sample_new_user_def)
  from issue_then_confirm_round_trip[of sample_world "''a@x.com''" "''482913''" sample_hash
         sample_new_user 2] h1 h2 h3 e
  show ?thesis by auto
qed

text \<open>
  Claim C8. \<open>verifyUser\<close> on an unknown email fails with \<open>User not found\<close>; on a known
  email with a code other than the stored one (a stored \<open>null\<close> included) it fails with
  \<open>Invalid verification code\<close>; in both cases the state is the one before the call, so
  the flag and the stored code are as they were.
\<close>

theorem verifyUser_failures_leave_state:
  "(getUserByEmail (Users st) e = None \<longrightarrow>
      verifyUser st e code = (Inl (Error ''User not found''), st))
   \<and> (\<forall>u. getUserByEmail (Users st) e = Some u \<and> verification_code u \<noteq> Some code \<longrightarrow>
      verifyUser st e code = (Inl (Error ''Invalid verification code''), st))"
  by (simp add: verifyUser_def)

theorem verifyUser_failures_leave_state_witness:
  "getUserByEmail (Users sample_world) ''b@x.com'' = None
   \<and> verifyUser sample_world ''b@x.com'' ''482913'' = (Inl (Error ''User not found''), sample_world)
   \<and> map_option verification_code (getUserByEmail (Users holding_482913) ''a@x.com'') = Some (Some ''482913'')
   \<and> verifyUser holding_482913 ''a@x.com'' ''000000''
       = (Inl (Error ''Invalid verification code''), holding_482913)
   \<and> \<not> verified (snd (verifyUser holding_482913 ''a@x.com'' ''000000'')) ''a@x.com''"
proof -
  have n: "getUserByEmail (Users sample_world) ''b@x.com'' = None"
    by (simp add: getUserByEmail_def sample_world_def sample_user_def)
  have s: "getUserByEmail (Users holding_482913) ''a@x.com''
             = Some (sample_user\<lparr>verification_code := Some ''482913'', is_verified := False\<rparr>)"
    by (simp add: getUserByEmail_def holding_482913_def setVerificationCode_def sample_world_def
          sample_user_def)
  have d: "verification_code (sample_user\<lparr>verification_code := Some ''482913'', is_verified := False\<rparr>)
             \<noteq> Some ''000000''"
    by simp
  from verifyUser_failures_leave_state[of sample_world "''b@x.com''" "''482913''"] n
  have a: "verifyUser sample_world ''b@x.com'' ''482913'' = (Inl (Error ''User not found''), sample_world)"
    by simp
  from verifyUser_failures_leave_state[of holding_482913 "''a@x.com''" "''000000''"] s d
  have b: "verifyUser holding_482913 ''a@x.com'' ''000000''
             = (Inl (Error ''Invalid verification code''), holding_482913)"
    by simp
  from n a b s show ?thesis
    by (simp add: verified_def)
qed

section \<open>The token issuer\<close>

text \<open>
  Claim C5 says that every valid pair of email and password gets a token. \<open>loginUser\<close>
  reads the signing secret after the password check and throws \<open>JWT secret not defined\<close>
  when it is missing, so a valid pair gets no token then.
\<close>

theorem loginUser_missing_secret_counterexample:
  "getUserByEmail [sample_user] ''a@x.com'' = Some sample_user
   \<and> sample_compare ''pw'' (password sample_user)
   \<and> loginUser sample_compare sample_sign None 1700000000123 [sample_user] ''a@x.com'' ''pw''
       = Inl (Error ''JWT secret not defined'')"
  by (simp add: loginUser_def getUserByEmail_def sample_user_def sample_compare_def sample_hash_def)

text \<open>
  Claim C5, amended. An unknown email fails with \<open>User not found\<close>; a known email with
  a password that does not match the stored hash fails with \<open>Invalid credentials\<close>; a
  valid pair, when the signing secret is set and not empty, returns the token signed over
  a payload whose \<open>sub\<close> is the stored id, whose \<open>role\<close> is the stored role and whose
  \<open>exp\<close> is the time of the call in seconds plus 3600, together with a copy of the record
  that has the id, names, email and phone number and no \<open>password\<close> property.
\<close>

theorem loginUser_contract:
  "(getUserByEmail db e = None \<longrightarrow>
      loginUser compare sign JWT_SECRET now db e p = Inl (Error ''User not found''))
   \<and> (\<forall>u. getUserByEmail db e = Some u \<and> \<not> compare p (password u) \<longrightarrow>
      loginUser compare sign JWT_SECRET now db e p = Inl (Error ''Invalid credentials''))
   \<and> (\<forall>u secret. getUserByEmail db e = Some u \<and> compare p (password u)
         \<and> JWT_SECRET = Some secret \<and> secret \<noteq> [] \<longrightarrow>
      (\<exists>payload sanitized.
         loginUser compare sign JWT_SECRET now db e p
           = Inr (JObj [(''message'', JStr ''Login successful''),
                        (''token'', JStr (sign payload secret)),
                        (''user'', sanitized)])
         \<and> get_property payload ''sub'' = JNum (userid u)
         \<and> get_property payload ''role'' = JStr (role u)
         \<and> get_property payload ''exp'' = JNum (now div 1000 + 3600)
         \<and> sanitized = JObj [(''userid'', JNum (userid u)),
                              (''first_name'', JStr (first_name u)),
                              (''last_name'', JStr (last_name u)),
                              (''email'', JStr (email u)),
                              (''phone_number'', JStr (phone_number u))]
         \<and> \<not> has_property ''password'' sanitized))"
proof (intro conjI allI impI)
  fix u secret
  assume h: "getUserByEmail db e = Some u \<and> compare p (password u)
               \<and> JWT_SECRET = Some secret \<and> secret \<noteq> []"
  let ?payload = "JObj [(''sub'', JNum (userid u)), (''first_name'', JStr (first_name u)),
                        (''last_name'', JStr (last_name u)), (''role'', JStr (role u)),
                        (''exp'', JNum (now div 1000 + 60 * 60))]"
  let ?sanitized = "JObj [(''userid'', JNum (userid u)), (''first_name'', JStr (first_name u)),
                          (''last_name'', JStr (last_name u)), (''email'', JStr (email u)),
                          (''phone_number'', JStr (phone_number u))]"
  from h have "loginUser compare sign JWT_SECRET now db e p
                 = Inr (JObj [(''message'', JStr ''Login successful''),
                              (''token'', JStr (sign ?payload secret)),
                              (''user'', ?sanitized)])"
    by (simp add: loginUser_def Let_def)
  then show "\<exists>payload sanitized.
         loginUser compare sign JWT_SECRET now db e p
           = Inr (JObj [(''message'', JStr ''Login successful''),
                        (''token'', JStr (sign payload secret)),
                        (''user'', sanitized)])
         \<and> get_property payload ''sub'' = JNum (userid u)
         \<and> get_property payload ''role'' = JStr (role u)
         \<and> get_property payload ''exp'' = JNum (now div 1000 + 3600)
         \<and> sanitized = JObj [(''userid'', JNum (userid u)),
                              (''first_name'', JStr (first_name u)),
                              (''last_name'', JStr (last_name u)),
                              (''email'', JStr (email u)),
                              (''phone_number'', JStr (phone_number u))]
         \<and> \<not> has_property ''password'' sanitized"
    by (intro exI[of _ ?payload] exI[of _ ?sanitized]) simp
qed (simp_all add: loginUser_def)

theorem loginUser_contract_witness:
  "getUserByEmail [sample_user] ''b@x.com'' = None
   \<and> loginUser sample_compare sample_sign (Some ''s3cret'') 1700000000123 [sample_user] ''b@x.com'' ''pw''
       = Inl (Error ''User not found'')
   \<and> getUserByEmail [sample_user] ''a@x.com'' = Some sample_user
   \<and> \<not> sample_compare ''wrong'' (password sample_user)
   \<and> loginUser sample_compare sample_sign (Some ''s3cret'') 1700000000123 [sample_user] ''a@x.com'' ''wrong''
       = Inl (Error ''Invalid credentials'')
   \<and> sample_compare ''pw'' (password sample_user)
   \<and> (\<exists>payload sanitized.
         loginUser sample_compare sample_sign (Some ''s3cret'') 1700000000123 [sample_user] ''a@x.com'' ''pw''
           = Inr (JObj [(''message'', JStr ''Login successful''),
                        (''token'', JStr (sample_sign payload ''s3cret'')),
                        (''user'', sanitized)])
         \<and> get_property payload ''role'' = JStr ''admin''
         \<and> get_property payload ''exp'' = JNum 1700003600
         \<and> \<not> has_property ''password'' sanitized)"
proof -
  have n: "getUserByEmail [sample_user] ''b@x.com'' = None"
    by (simp add: getUserByEmail_def sample_user_def)
  have s: "getUserByEmail [sample_user] ''a@x.com'' = Some sample_user"
    by (simp add: getUserByEmail_def sample_user_def)
  have w: "\<not> sample_compare ''wrong'' (password sample_user)"
    by (simp add: sample_compare_def sample_hash_def sample_user_def)
  have c: "sample_compare ''pw'' (password sample_user)"
    by (simp add: sample_compare_def sample_hash_def sample_user_def)
  have r: "role sample_user = ''admin''"
    by (simp add: sample_user_def)
  from loginUser_contract[of "[sample_user]" "''b@x.com''" sample_compare sample_sign
         "Some ''s3cret''" 1700000000123 "''pw''"] n
  have 1: "loginUser sample_compare sample_sign (Some ''s3cret'') 1700000000123 [sample_user] ''b@x.com'' ''pw''
       = Inl (Error ''User not found'')"
    by blast
  from loginUser_contract[of "[sample_user]" "''a@x.com''" sample_compare sample_sign
         "Some ''s3cret''" 1700000000123 "''wrong''"] s w
  have 2: "loginUser sample_compare sample_sign (Some ''s3cret'') 1700000000123 [sample_user] ''a@x.com'' ''wrong''
       = Inl (Error ''Invalid credentials'')"
    by blast
  from loginUser_contract[of "[sample_user]" "''a@x.com''" sample_compare sample_sign
         "Some ''s3cret''" 1700000000123 "''pw''"] s c
  have "\<exists>payload sanitized.
         loginUser sample_compare sample_sign (Some ''s3cret'') 1700000000123 [sample_user] ''a@x.com'' ''pw''
           = Inr (JObj [(''message'', JStr ''Login successful''),
                        (''token'', JStr (sample_sign payload ''s3cret'')),
                        (''user'', sanitized)])
         \<and> get_property payload ''role'' = JStr (role sample_user)
         \<and> get_property payload ''exp'' = JNum (1700000000123 div 1000 + 3600)
         \<and> \<not> has_property ''password'' sanitized"
    by blast
  then have 3: "\<exists>payload sanitized.
         loginUser sample_compare sample_sign (Some ''s3cret'') 1700000000123 [sample_user] ''a@x.com'' ''pw''
           = Inr (JObj [(''message'', JStr ''Login successful''),
                        (''token'', JStr (sample_sign payload ''s3cret'')),
                        (''user'', sanitized)])
         \<and> get_property payload ''role'' = JStr ''admin''
         \<and> get_property payload ''exp'' = JNum 1700003600
         \<and> \<not> has_property ''password'' sanitized"
    by (simp add: r)
  from n s w c 1 2 3 show ?thesis by blast
qed

text \<open>
  Claim C9 says that no request observes a missing signing secret. A \<open>loginUser\<close> call
  with a valid pair fails with \<open>JWT secret not defined\<close> when the secret is missing, and
  the same call succeeds when it is set.
\<close>

theorem missing_secret_per_request_counterexample:
  "loginUser sample_compare sample_sign None 1700000500000 [sample_user] ''a@x.com'' ''pw''
       = Inl (Error ''JWT secret not defined'')
   \<and> loginUser sample_compare sample_sign None 1700000500000 [sample_user] ''a@x.com'' ''pw''
       \<noteq> loginUser sample_compare sample_sign (Some ''s3cret'') 1700000500000 [sample_user] ''a@x.com'' ''pw''"
  by (simp add: loginUser_def getUserByEmail_def sample_user_def sample_compare_def sample_hash_def)

text \<open>
  Claim C9, amended. A missing signing secret is met per request: while the secret is
  undefined or empty, every \<open>loginUser\<close> call with a known email and a matching password
  fails with \<open>JWT secret not defined\<close>, and every \<open>checkRoles\<close> request whose
  verification call throws is answered 401 \<open>Invalid Token\<close>.
\<close>

theorem missing_secret_is_per_request:
  assumes "JWT_SECRET = None \<or> JWT_SECRET = Some []"
  shows "(\<forall>u. getUserByEmail db e = Some u \<and> compare p (password u) \<longrightarrow>
            loginUser compare sign JWT_SECRET now db e p = Inl (Error ''JWT secret not defined''))
         \<and> (\<forall>error. startsWith h ''Bearer '' \<and> verify (header_token h) JWT_SECRET = Inl error \<longrightarrow>
            checkRoles verify JWT_SECRET requiredRole (Some h) = Inr [Respond 401 ''Invalid Token''])"
  using assms
  by (auto simp: loginUser_def Let_def checkRoles_def try_catch_def dest: startsWith_nonempty)

theorem missing_secret_is_per_request_witness:
  "loginUser sample_compare sample_sign (Some []) 1700000000123 [sample_user] ''a@x.com'' ''pw''
       = Inl (Error ''JWT secret not defined'')
   \<and> checkRoles sample_verify (Some []) ''admin'' (Some ''Bearer admin.jwt'')
       = Inr [Respond 401 ''Invalid Token'']"
proof -
  have s: "getUserByEmail [sample_user] ''a@x.com'' = Some sample_user"
    by (simp add: getUserByEmail_def sample_user_def)
  have c: "sample_compare ''pw'' (password sample_user)"
    by (simp add: sample_compare_def sample_hash_def sample_user_def)
  have b: "startsWith ''Bearer admin.jwt'' ''Bearer ''"
    by (simp add: startsWith_def)
  have v: "sample_verify (header_token ''Bearer admin.jwt'') (Some [])
             = Inl (Exn ''JsonWebTokenError'' ''invalid signature'')"
    by (simp add: sample_verify_def)
  from missing_secret_is_per_request[of "Some []" "[sample_user]" "''a@x.com''" sample_compare
         "''pw''" sample_sign 1700000000123 "''Bearer admin.jwt''" sample_verify "''admin''"]
       s c b v
  show ?thesis by blast
qed

section \<open>The access guard\<close>

text \<open>
  Claim C2. For every verification function, secret, required role and header, absent or
  present, \<open>checkRoles\<close> returns without an exception, and either calls \<open>next()\<close> once
  and sends nothing, or never calls \<open>next()\<close> and sends one response, with status 401.
\<close>

theorem checkRoles_one_outcome:
  "\<exists>effs. checkRoles verify JWT_SECRET requiredRole authHeader = Inr effs \<and>
     ((next_calls effs = 1 \<and> responses effs = []) \<or>
      (next_calls effs = 0 \<and> (\<exists>msg. responses effs = [(401, msg)])))"
  by (auto simp: checkRoles_def try_catch_def next_calls_def Let_def split: option.splits sum.splits)

theorem checkRoles_one_outcome_witness:
  "(\<exists>effs. checkRoles sample_verify (Some ''s3cret'') ''admin'' (Some ''Bearer expired.jwt'') = Inr effs \<and>
     ((next_calls effs = 1 \<and> responses effs = []) \<or>
      (next_calls effs = 0 \<and> (\<exists>msg. responses effs = [(401, msg)]))))
   \<and> checkRoles sample_verify (Some ''s3cret'') ''admin'' (Some ''Bearer expired.jwt'')
       = Inr [Respond 401 ''Invalid Token'']"
proof -
  have "checkRoles sample_verify (Some ''s3cret'') ''admin'' (Some ''Bearer expired.jwt'')
       = Inr [Respond 401 ''Invalid Token'']"
    by (simp add: checkRoles_def try_catch_def startsWith_def header_token_def at_index_def
          sample_verify_def)
  with checkRoles_one_outcome[of sample_verify "Some ''s3cret''" "''admin''" "Some ''Bearer expired.jwt''"]
  show ?thesis by blast
qed

text \<open>
  Claim C3. When the token verifies to an object with a \<open>role\<close> property, the request
  proceeds exactly when the role is \<open>admin\<close> or \<open>user\<close>, for the required role
  \<open>both\<close>, and exactly when the role is the required role otherwise. A token of role
  \<open>user\<close> is denied under \<open>admin\<close> and accepted under \<open>both\<close>.
\<close>

theorem checkRoles_role_policy:
  assumes "startsWith h ''Bearer ''"
    and "verify (header_token h) JWT_SECRET = Inr (JObj kvs)"
    and "map_of kvs ''role'' = Some r"
  shows "proceeds (checkRoles verify JWT_SECRET requiredRole (Some h)) =
           (if requiredRole = ''both'' then r = JStr ''admin'' \<or> r = JStr ''user''
            else r = JStr requiredRole)
         \<and> (r = JStr ''user'' \<longrightarrow>
               \<not> proceeds (checkRoles verify JWT_SECRET ''admin'' (Some h))
               \<and> proceeds (checkRoles verify JWT_SECRET ''both'' (Some h)))"
proof -
  from assms(3) have "''role'' \<in> fst ` set kvs"
    by (metis domI dom_map_of_conv_image_fst)
  with assms show ?thesis
    by (simp add: checkRoles_bearer try_catch_def)
qed

theorem checkRoles_role_policy_witness:
  "\<not> proceeds (checkRoles sample_verify (Some ''s3cret'') ''admin'' (Some ''Bearer user.jwt''))
   \<and> proceeds (checkRoles sample_verify (Some ''s3cret'') ''both'' (Some ''Bearer user.jwt''))
   \<and> proceeds (checkRoles sample_verify (Some ''s3cret'') ''user'' (Some ''Bearer user.jwt''))"
proof -
  have b: "startsWith ''Bearer user.jwt'' ''Bearer ''"
    by (simp add: startsWith_def)
  have v: "sample_verify (header_token ''Bearer user.jwt'') (Some ''s3cret'')
             = Inr (JObj [(''sub'', JNum 2), (''role'', JStr ''user''), (''exp'', JNum 1700003600)])"
    by (simp add: header_token_def at_index_def sample_verify_def)
  have m: "map_of [(''sub'', JNum 2), (''role'', JStr ''user''), (''exp'', JNum 1700003600)] ''role''
             = Some (JStr ''user'')"
    by simp
  from checkRoles_role_policy[where verify = sample_verify and requiredRole = "''user''", OF b v m] show ?thesis by simp
qed

text \<open>
  Claim C4 says that every header not of the exact form \<open>Bearer <token>\<close> is treated as
  a missing header. The middleware tests only the prefix \<open>Bearer \<close> and verifies the part
  up to the next space, so a header with a further part after a good token proceeds.
\<close>

theorem checkRoles_extra_part_counterexample:
  "\<not> spec_bearer_form ''Bearer admin.jwt extra''
   \<and> checkRoles sample_verify (Some ''s3cret'') ''admin'' (Some ''Bearer admin.jwt extra'')
       = Inr [SetUser (JObj [(''sub'', JNum 1), (''role'', JStr ''admin''), (''exp'', JNum 1700003600)]),
              Next]
   \<and> checkRoles sample_verify (Some ''s3cret'') ''admin'' None = Inr [Respond 401 ''Unauthorized'']"
  by (simp add: spec_bearer_form_def checkRoles_def try_catch_def startsWith_def header_token_def
        at_index_def sample_verify_def)

text \<open>
  Claim C4, amended. Every header that does not start with \<open>Bearer \<close> (capital B, one
  space), the empty header and \<open>Token abc123\<close> included, is treated as a missing header:
  401 \<open>Unauthorized\<close>, without a call of the verification function or of \<open>next()\<close>.
\<close>

theorem checkRoles_not_bearer_as_absent:
  assumes "\<not> startsWith h ''Bearer ''"
  shows "checkRoles verify JWT_SECRET requiredRole (Some h)
           = checkRoles verify JWT_SECRET requiredRole None
         \<and> checkRoles verify JWT_SECRET requiredRole None = Inr [Respond 401 ''Unauthorized'']"
  using assms by (simp add: checkRoles_def)

theorem checkRoles_not_bearer_as_absent_witness:
  "\<not> startsWith ''Token abc123'' ''Bearer ''
   \<and> checkRoles sample_verify (Some ''s3cret'') ''both'' (Some ''Token abc123'')
       = checkRoles sample_verify (Some ''s3cret'') ''both'' None
   \<and> checkRoles sample_verify (Some ''s3cret'') ''both'' None = Inr [Respond 401 ''Unauthorized'']"
proof -
  have n: "\<not> startsWith ''Token abc123'' ''Bearer ''"
    by (simp add: startsWith_def)
  from n checkRoles_not_bearer_as_absent[OF n, of sample_verify "Some ''s3cret''" "''both''"]
  show ?thesis by simp
qed

text \<open>
  Claim C6. For every token whose \<open>exp\<close> is before the time of the call, the guard
  answers 401 \<open>Invalid Token\<close> and does not call \<open>next()\<close>, whatever the signature
  check says of the token and whatever the secret and the required role are; and a
  request whose token has a bad signature gets the very same response.
\<close>

theorem checkRoles_expired_denied:
  assumes "startsWith h ''Bearer ''"
    and "header_token h = Some t"
    and "decode t = Some payload"
    and "get_property payload ''exp'' = JNum e"
    and "e < clock"
  shows "checkRoles (jwt_verify decode signature_valid clock) JWT_SECRET requiredRole (Some h)
           = Inr [Respond 401 ''Invalid Token'']
         \<and> \<not> proceeds (checkRoles (jwt_verify decode signature_valid clock) JWT_SECRET
                          requiredRole (Some h))
         \<and> (\<forall>h' t' s. startsWith h' ''Bearer '' \<and> header_token h' = Some t'
                \<and> JWT_SECRET = Some s \<and> \<not> signature_valid t' s \<longrightarrow>
              checkRoles (jwt_verify decode signature_valid clock) JWT_SECRET requiredRole (Some h')
                = checkRoles (jwt_verify decode signature_valid clock) JWT_SECRET requiredRole
                    (Some h))"
proof -
  let ?verify = "jwt_verify decode signature_valid clock"
  from jwt_verify_expired[where decode = decode and signature_valid = signature_valid
         and secret = JWT_SECRET, OF assms(3,4,5)] assms(2)
  obtain error where "?verify (header_token h) JWT_SECRET = Inl error"
    by metis
  with assms(1)
  have denied: "checkRoles ?verify JWT_SECRET requiredRole (Some h)
                  = Inr [Respond 401 ''Invalid Token'']"
    by (rule checkRoles_verify_throws)
  have same: "checkRoles ?verify JWT_SECRET requiredRole (Some h')
                = checkRoles ?verify JWT_SECRET requiredRole (Some h)"
    if "startsWith h' ''Bearer ''" and "header_token h' = Some t'" and "JWT_SECRET = Some s"
      and "\<not> signature_valid t' s" for h' t' s
  proof -
    from jwt_verify_invalid_signature[where decode = decode and signature_valid = signature_valid
           and clock = clock, OF that(4)] that(2,3)
    obtain error' where "?verify (header_token h') JWT_SECRET = Inl error'"
      by metis
    with that(1)
    have "checkRoles ?verify JWT_SECRET requiredRole (Some h') = Inr [Respond 401 ''Invalid Token'']"
      by (rule checkRoles_verify_throws)
    with denied show ?thesis by simp
  qed
  from denied same show ?thesis by auto
qed

theorem checkRoles_expired_denied_witness:
  "sample_signature_valid ''expired.jwt'' ''s3cret''
   \<and> checkRoles (jwt_verify sample_decode sample_signature_valid 1700001000) (Some ''s3cret'')
        ''admin'' (Some ''Bearer expired.jwt'')
       = Inr [Respond 401 ''Invalid Token'']
   \<and> \<not> sample_signature_valid ''expired.jwt'' ''other''
   \<and> checkRoles (jwt_verify sample_decode sample_signature_valid 1700001000) (Some ''other'')
        ''admin'' (Some ''Bearer expired.jwt'')
       = Inr [Respond 401 ''Invalid Token'']
   \<and> \<not> sample_signature_valid ''forged.jwt'' ''s3cret''
   \<and> checkRoles (jwt_verify sample_decode sample_signature_valid 1700001000) (Some ''s3cret'')
        ''admin'' (Some ''Bearer forged.jwt'')
       = checkRoles (jwt_verify sample_decode sample_signature_valid 1700001000) (Some ''s3cret'')
           ''admin'' (Some ''Bearer expired.jwt'')
   \<and> checkRoles (jwt_verify sample_decode sample_signature_valid 1700001000) (Some ''s3cret'')
        ''admin'' (Some ''Bearer admin.jwt'')
       = Inr [SetUser (JObj [(''sub'', JNum 1), (''role'', JStr ''admin''),
                             (''exp'', JNum 1700003600)]), Next]"
proof -
  have b: "startsWith ''Bearer expired.jwt'' ''Bearer ''"
    and b': "startsWith ''Bearer forged.jwt'' ''Bearer ''"
    by (simp_all add: startsWith_def)
  have t: "header_token ''Bearer expired.jwt'' = Some ''expired.jwt''"
    and t': "header_token ''Bearer forged.jwt'' = Some ''forged.jwt''"
    by (simp_all add: header_token_def at_index_def)
  have d: "sample_decode ''expired.jwt''
             = Some (JObj [(''sub'', JNum 1), (''role'', JStr ''admin''), (''exp'', JNum 1700000000)])"
    by (simp add: sample_decode_def)
  have x: "get_property (JObj [(''sub'', JNum 1), (''role'', JStr ''admin''),
                               (''exp'', JNum 1700000000)]) ''exp'' = JNum 1700000000"
    by simp
  have c: "(1700000000::int) < 1700001000"
    by simp
  have v: "sample_signature_valid ''expired.jwt'' ''s3cret''"
    and w: "\<not> sample_signature_valid ''expired.jwt'' ''other''"
    and f: "\<not> sample_signature_valid ''forged.jwt'' ''s3cret''"
    by (simp_all add: sample_signature_valid_def)
  note good = checkRoles_expired_denied[where signature_valid = sample_signature_valid
      and decode = sample_decode and requiredRole = "''admin''" and JWT_SECRET = "Some ''s3cret''",
      OF b t d x c]
  note other = checkRoles_expired_denied[where signature_valid = sample_signature_valid
      and decode = sample_decode and requiredRole = "''admin''" and JWT_SECRET = "Some ''other''",
      OF b t d x c]
  have 1: "checkRoles (jwt_verify sample_decode sample_signature_valid 1700001000) (Some ''s3cret'')
        ''admin'' (Some ''Bearer expired.jwt'') = Inr [Respond 401 ''Invalid Token'']"
    using good by blast
  have 2: "checkRoles (jwt_verify sample_decode sample_signature_valid 1700001000) (Some ''other'')
        ''admin'' (Some ''Bearer expired.jwt'') = Inr [Respond 401 ''Invalid Token'']"
    using other by blast
  have 3: "checkRoles (jwt_verify sample_decode sample_signature_valid 1700001000) (Some ''s3cret'')
        ''admin'' (Some ''Bearer forged.jwt'')
       = checkRoles (jwt_verify sample_decode sample_signature_valid 1700001000) (Some ''s3cret'')
           ''admin'' (Some ''Bearer expired.jwt'')"
    using good b' t' f by blast
  have 4: "checkRoles (jwt_verify sample_decode sample_signature_valid 1700001000) (Some ''s3cret'')
        ''admin'' (Some ''Bearer admin.jwt'')
       = Inr [SetUser (JObj [(''sub'', JNum 1), (''role'', JStr ''admin''),
                             (''exp'', JNum 1700003600)]), Next]"
    by (simp add: checkRoles_def try_catch_def startsWith_def header_token_def at_index_def
          jwt_verify_def expired_def sample_decode_def sample_signature_valid_def)
  from v w f 1 2 3 4 show ?thesis by blast
qed

text \<open>
  Claim C10. When the token verifies to something that is not an object, or to an object
  without a \<open>role\<close> property, the guard answers 401 \<open>Invalid Token Payload\<close> and does
  not call \<open>next()\<close>, for every required role.
\<close>

theorem checkRoles_invalid_payload:
  assumes "startsWith h ''Bearer ''"
    and "verify (header_token h) JWT_SECRET = Inr decoded"
    and "(\<forall>kvs. decoded \<noteq> JObj kvs) \<or> \<not> has_property ''role'' decoded"
  shows "checkRoles verify JWT_SECRET requiredRole (Some h)
           = Inr [SetUser decoded, Respond 401 ''Invalid Token Payload'']
         \<and> \<not> proceeds (checkRoles verify JWT_SECRET requiredRole (Some h))"
proof -
  from assms(3) have "\<not> has_property ''role'' decoded"
    by (cases decoded) auto
  with assms(1,2) show ?thesis
    by (simp add: checkRoles_bearer try_catch_def)
qed

theorem checkRoles_invalid_payload_witness:
  "checkRoles sample_verify (Some ''s3cret'') ''both'' (Some ''Bearer text.jwt'')
     = Inr [SetUser (JStr ''hello''), Respond 401 ''Invalid Token Payload'']
   \<and> \<not> proceeds (checkRoles sample_verify (Some ''s3cret'') ''both'' (Some ''Bearer text.jwt''))"
proof -
  have b: "startsWith ''Bearer text.jwt'' ''Bearer ''"
    by (simp add: startsWith_def)
  have v: "sample_verify (header_token ''Bearer text.jwt'') (Some ''s3cret'') = Inr (JStr ''hello'')"
    by (simp add: header_token_def at_index_def sample_verify_def)
  have p: "(\<forall>kvs. JStr ''hello'' \<noteq> JObj kvs) \<or> \<not> has_property ''role'' (JStr ''hello'')"
    by simp
  from checkRoles_invalid_payload[where verify = sample_verify and requiredRole = "''both''",
         OF b v p] show ?thesis .
qed

end
